theory Spec2Isabelle
  imports Complex_Main
begin

section \<open>Floating-point values of pandas and numpy\<close>

text \<open>
  A float64 cell is a finite number, one of the two infinities, or NaN (which pandas also
  uses for a missing cell). Finite values are rationals and finite arithmetic is exact:
  the rounding error of IEEE arithmetic and the sign of zero are outside this model.
\<close>

datatype fval = Fin rat | PInf | NInf | NaN

fun is_finite :: "fval \<Rightarrow> bool" where
  "is_finite (Fin q) = True"
| "is_finite v = False"

fun isna :: "fval \<Rightarrow> bool" where
  "isna NaN = True"
| "isna v = False"

text \<open>
  numpy's true division under \<open>np.errstate(all="ignore")\<close>, as pandas runs it: a zero
  divisor raises nothing and yields an infinity, or NaN for \<open>0/0\<close>.
\<close>

fun fdiv :: "fval \<Rightarrow> fval \<Rightarrow> fval" where
  "fdiv NaN y = NaN"
| "fdiv x NaN = NaN"
| "fdiv (Fin a) (Fin b) =
     (if b \<noteq> 0 then Fin (a / b)
      else if 0 < a then PInf else if a < 0 then NInf else NaN)"
| "fdiv (Fin a) y = Fin 0"
| "fdiv PInf (Fin b) = (if 0 \<le> b then PInf else NInf)"
| "fdiv NInf (Fin b) = (if 0 \<le> b then NInf else PInf)"
| "fdiv x y = NaN"

text \<open>
  \<open>np.round\<close> with no decimals (what \<open>Series.round()\<close> calls): the nearest integer, a tie
  going to the even neighbour.
\<close>

definition rint :: "rat \<Rightarrow> int" where
  "rint q =
     (let f = \<lfloor>q\<rfloor>; r = q - of_int f
      in if r < 1 / 2 then f
         else if 1 / 2 < r then f + 1
         else if even f then f else f + 1)"

fun fround :: "fval \<Rightarrow> fval" where
  "fround (Fin q) = Fin (of_int (rint q))"
| "fround v = v"


subsection \<open>Series\<close>

text \<open>
  A pandas Series of floats: its index labels with their values, in order. Labels are
  integers and each occurs once (alignment of a Series with repeated labels is outside
  this model).
\<close>

type_synonym series = "(int \<times> fval) list"

definition pd_Series :: "fval list \<Rightarrow> series" where
  \<comment> \<open>\<open>pd.Series(values)\<close>: the default index \<open>0 .. n-1\<close>.\<close>
  "pd_Series vs = zip (map int [0..<length vs]) vs"

definition series_get :: "series \<Rightarrow> int \<Rightarrow> fval" where
  \<comment> \<open>The cell at a label after reindexing: NaN where the Series has no such label.\<close>
  "series_get s l = (case map_of s l of None \<Rightarrow> NaN | Some v \<Rightarrow> v)"

definition series_truediv :: "series \<Rightarrow> fval \<Rightarrow> series" where
  \<comment> \<open>\<open>s / c\<close> for a scalar \<open>c\<close>.\<close>
  "series_truediv s c = map (\<lambda>(l, v). (l, fdiv v c)) s"

definition outer_index :: "int list \<Rightarrow> int list \<Rightarrow> int list" where
  \<comment> \<open>The index of an outer alignment: kept when both are equal, else the sorted union.\<close>
  "outer_index i1 i2 = (if i1 = i2 then i1 else sort (remdups (i1 @ i2)))"

definition fill_binop :: "fval \<Rightarrow> fval \<Rightarrow> fval \<Rightarrow> fval \<times> fval" where
  \<comment> \<open>pandas \<open>fill_binop\<close>: where exactly one side is missing it takes the fill value.\<close>
  "fill_binop x y fill =
     (if isna x \<and> \<not> isna y then (fill, y)
      else if isna y \<and> \<not> isna x then (x, fill)
      else (x, y))"

definition series_div :: "series \<Rightarrow> series \<Rightarrow> fval \<Rightarrow> series" where
  \<comment> \<open>\<open>s.div(t, fill_value = fill)\<close>: outer alignment, filling, then true division.\<close>
  "series_div s t fill =
     map (\<lambda>l. (l, (case fill_binop (series_get s l) (series_get t l) fill of
                     (x, y) \<Rightarrow> fdiv x y)))
         (outer_index (map fst s) (map fst t))"

definition series_round :: "series \<Rightarrow> series" where
  "series_round s = map (\<lambda>(l, v). (l, fround v)) s"

section \<open>Python values, exceptions and output\<close>

text \<open>
  The Python values that reach the modelled code as arguments whose type it checks or
  passes on (a flag, a keyword parameter, a cell of a table).
\<close>

datatype pyval = PyNone | PyBool bool | PyInt int | PyFloat fval | PyStr string

text \<open>
  The exceptions that the modelled code raises itself, or that the Python run time raises
  on its behalf (a missing attribute, an unbound local, \<open>Path(None)\<close>). \<open>External\<close>
  stands for whatever an outside collaborator (sklearn, pandas, pickle) may raise.
  The string is the message or the offending name.
\<close>

datatype error =
    TypeError string
  | ValueError string
  | FileNotFoundError string
  | KeyError string
  | AttributeError string
  | UnboundLocalError string
  | External string

text \<open>
  What the process-wide \<open>logger\<close>, \<open>print\<close> and \<open>input\<close> emit, in order. A log call with
  integer arguments keeps its format string and the arguments. The banner lines of
  \<open>grid_search\<close> (a title centred in 120 dashes) are kept by their title, a line of the
  parameter grid by its key and its values, and the line that reports the number of
  combinations by that number. \<open>GridSearchFit\<close> marks the call of
  \<open>GridSearchCV.fit\<close> and \<open>ModelFit\<close> the call of the regressor's \<open>fit\<close>.
\<close>

datatype event =
    LogInfo string
  | LogInfoInts string "nat list"
  | LogDebug string
  | LogError string
  | Banner string
  | Print string
  | PrintParam string "pyval list"
  | PrintCombinations nat
  | Input string
  | GridSearchFit
  | ModelFit

section \<open>literacy\_score/grade.py: DataGrader\<close>

text \<open>
  One row of \<open>self.data\<close>, the batch held by the Dataset base class: its index label, the
  three input columns, and the \<open>wcpm_estimations\<close> column once it has been assigned.
\<close>

record row =
  idx :: int
  prompt :: string
  asr_transcript :: string
  scored_duration :: fval
  wcpm_estimations :: "fval option"

text \<open>
  The attributes of a DataGrader that \<open>set_model\<close> and \<open>estimate_wcpm\<close> read or write, and
  the log written so far. \<open>'f\<close> is the feature table, \<open>'s\<close> the loaded scaler and \<open>'m\<close> the
  loaded regressor.
\<close>

record ('f, 's, 'm) DataGrader =
  dg_data :: "row list"
  dg_features :: 'f
  dg_scaler :: 's
  dg_model :: 'm
  dg_model_type :: string
  dg_log :: "event list"

text \<open>
  What \<open>grade.py\<close> imports and calls but does not define: the constant \<open>MODELS_PATH\<close> of
  the configuration, \<open>open_file\<close> of the utilities, and the \<open>transform\<close> and \<open>predict\<close>
  methods of the loaded objects. Each call may raise.
\<close>

record ('f, 's, 'm) grade_env =
  MODELS_PATH :: string
  open_file :: "string \<Rightarrow> error + 'm"
  transform :: "'s \<Rightarrow> 'f \<Rightarrow> error + 'f"
  predict :: "'m \<Rightarrow> 'f \<Rightarrow> error + fval list"

definition quoted :: "string \<Rightarrow> string" where
  \<comment> \<open>A name between two apostrophes, as the log messages write it.\<close>
  "quoted s = [CHR 0x27] @ s @ [CHR 0x27]"

definition load_model ::
  "('f, 's, 'm) grade_env \<Rightarrow> string \<Rightarrow> ('f, 's, 'm) DataGrader
     \<Rightarrow> error + ('m \<times> ('f, 's, 'm) DataGrader)" where
  \<comment> \<open>\<open>DataGrader.__load_model\<close>\<close>
  "load_model env model_file g =
     (let model_path = MODELS_PATH env @ model_file;
          g1 = g\<lparr>dg_log := dg_log g @ [LogInfo (''Loading model from '' @ model_path)]\<rparr>
      in case open_file env model_path of
           Inl e \<Rightarrow> Inl e
         | Inr m \<Rightarrow> Inr (m, g1))"

definition set_model ::
  "('f, 's, 'm) grade_env \<Rightarrow> string \<Rightarrow> ('f, 's, 'm) DataGrader
     \<Rightarrow> error + ('f, 's, 'm) DataGrader" where
  "set_model env model_type g =
     (if dg_model_type g = model_type then Inr g
      else if model_type = ''RF'' then
        (case load_model env ''rf_hypertuned.pkl'' g of
           Inl e \<Rightarrow> Inl e
         | Inr (m, g1) \<Rightarrow> Inr (g1\<lparr>dg_model := m, dg_model_type := model_type\<rparr>))
      else if model_type = ''XGB'' then
        (case load_model env ''xgb_hypertuned.pkl'' g of
           Inl e \<Rightarrow> Inl e
         | Inr (m, g1) \<Rightarrow> Inr (g1\<lparr>dg_model := m, dg_model_type := model_type\<rparr>))
      else
        Inr (g\<lparr>dg_log := dg_log g @
          [LogError (''No such model is available: '' @ model_type @ '' in '' @ MODELS_PATH env
             @ ''. please choose between '' @ quoted ''RF'' @ '' and '' @ quoted ''XGB'')]\<rparr>))"

definition duration_series :: "row list \<Rightarrow> series" where
  \<comment> \<open>\<open>self.data[self.duration_col]\<close>\<close>
  "duration_series rows = map (\<lambda>r. (idx r, scored_duration r)) rows"

definition wcpm_of :: "fval list \<Rightarrow> row list \<Rightarrow> series" where
  \<comment> \<open>Lines 87 to 89 of \<open>estimate_wcpm\<close>: from the predictions to the rounded Series.\<close>
  "wcpm_of wc rows =
     series_round
       (series_div (pd_Series wc) (series_truediv (duration_series rows) (Fin 60)) (Fin 0))"

definition setitem_wcpm :: "series \<Rightarrow> row list \<Rightarrow> row list" where
  \<comment> \<open>\<open>self.data['wcpm_estimations'] = wcpm\<close>: the Series reindexed to the rows' labels.\<close>
  "setitem_wcpm s rows = map (\<lambda>r. r\<lparr>wcpm_estimations := Some (series_get s (idx r))\<rparr>) rows"

definition estimate_wcpm ::
  "('f, 's, 'm) grade_env \<Rightarrow> bool \<Rightarrow> string option \<Rightarrow> ('f, 's, 'm) DataGrader
     \<Rightarrow> error + (series option \<times> ('f, 's, 'm) DataGrader)" where
  "estimate_wcpm env inplace model g =
     (case (case model of None \<Rightarrow> Inr g | Some t \<Rightarrow> set_model env t g) of
        Inl e \<Rightarrow> Inl e
      | Inr g1 \<Rightarrow>
         (let g2 = g1\<lparr>dg_log := dg_log g1 @ [LogDebug ''Estimating wcpm'']\<rparr>
          in case transform env (dg_scaler g2) (dg_features g2) of
               Inl e \<Rightarrow> Inl e
             | Inr f \<Rightarrow>
                (let g3 = g2\<lparr>dg_features := f\<rparr>
                 in case predict env (dg_model g3) (dg_features g3) of
                      Inl e \<Rightarrow> Inl e
                    | Inr wc \<Rightarrow>
                       (let wcpm = wcpm_of wc (dg_data g3)
                        in if \<not> inplace then Inr (Some wcpm, g3)
                           else Inr (None, g3\<lparr>dg_data := setitem_wcpm wcpm (dg_data g3)\<rparr>)))))"

section \<open>literacy\_score/train.py: ModelTrainer\<close>

text \<open>
  The feature table \<open>self.features\<close> in train mode: per row its index label, the feature
  values and the target column \<open>human_wc\<close>. A frame of features keeps the labels; what a
  scaler returns is a bare array.
\<close>

record feature_row =
  fr_idx :: int
  fr_values :: "fval list"
  human_wc :: fval

type_synonym xframe = "(int \<times> fval list) list"

type_synonym matrix = "fval list list"

type_synonym kwargs = "(string \<times> pyval) list"

text \<open>
  The attributes of a ModelTrainer. An attribute that has not been assigned yet is \<open>None\<close>:
  reading it raises AttributeError. \<open>'d\<close> is the Dataset, \<open>'s\<close> a scaler, \<open>'m\<close> a
  regressor; \<open>mt_out\<close> is the output written since construction.
\<close>

record ('d, 's, 'm) ModelTrainer =
  mt_model :: "'m option"
  mt_model_type :: "string option"
  mt_data :: "'d option"
  mt_features :: "feature_row list option"
  mt_datapoints :: "nat option"
  mt_test_idx :: "int list option"
  mt_scaler :: "'s option"
  mt_X_train :: "matrix option"
  mt_X_test :: "matrix option"
  mt_Y_train :: "series option"
  mt_Y_test :: "series option"
  mt_out :: "event list"

text \<open>
  What \<open>train.py\<close> imports and calls but does not define: the constant \<open>SEED\<close>, the
  regressor classes with their \<open>set_params\<close> and \<open>fit\<close>, the Dataset's
  \<open>determine_outliers_mask\<close>, sklearn's \<open>train_test_split\<close>, \<open>StandardScaler\<close> and
  \<open>GridSearchCV\<close> (\<open>'g\<close> is a fitted search, \<open>best_estimator\<close> its \<open>best_estimator_\<close>).
  \<open>set_params\<close> and \<open>fit\<close> give the object as the call leaves it.
\<close>

record ('d, 's, 'm, 'g) train_env =
  SEED :: int
  RandomForestRegressor :: "int \<Rightarrow> 'm"
  XGBRegressor :: "int \<Rightarrow> 'm"
  KNeighborsRegressor :: 'm
  BaselineModel :: 'm
  set_params :: "'m \<Rightarrow> kwargs \<Rightarrow> error + 'm"
  fit :: "'m \<Rightarrow> matrix \<Rightarrow> series \<Rightarrow> error + 'm"
  determine_outliers_mask :: "'d \<Rightarrow> rat \<Rightarrow> error + bool list"
  train_test_split ::
    "xframe \<Rightarrow> series \<Rightarrow> rat \<Rightarrow> int \<Rightarrow> error + (xframe \<times> xframe \<times> series \<times> series)"
  StandardScaler :: 's
  scaler_fit_transform :: "'s \<Rightarrow> xframe \<Rightarrow> error + ('s \<times> matrix)"
  scaler_transform :: "'s \<Rightarrow> xframe \<Rightarrow> error + matrix"
  GridSearchCV_fit ::
    "'m \<Rightarrow> (string \<times> pyval list) list \<Rightarrow> string \<Rightarrow> nat \<Rightarrow> int \<Rightarrow> nat
       \<Rightarrow> matrix \<Rightarrow> series \<Rightarrow> error + 'g"
  best_estimator :: "'g \<Rightarrow> 'm"

definition new_trainer :: "('d, 's, 'm) ModelTrainer" where
  \<comment> \<open>The object as \<open>__init__\<close> receives it: no attribute assigned.\<close>
  "new_trainer =
     \<lparr>mt_model = None, mt_model_type = None, mt_data = None, mt_features = None,
      mt_datapoints = None, mt_test_idx = None, mt_scaler = None, mt_X_train = None,
      mt_X_test = None, mt_Y_train = None, mt_Y_test = None, mt_out = []\<rparr>"

definition set_model_params ::
  "('d, 's, 'm, 'g) train_env \<Rightarrow> kwargs \<Rightarrow> ('d, 's, 'm) ModelTrainer
     \<Rightarrow> error + ('d, 's, 'm) ModelTrainer" where
  "set_model_params env params t =
     (case mt_model t of
        None \<Rightarrow> Inl (AttributeError ''model'')
      | Some m \<Rightarrow>
         (case set_params env m params of
            Inl e \<Rightarrow> Inl e
          | Inr m1 \<Rightarrow> Inr (t\<lparr>mt_model := Some m1\<rparr>)))"

definition set_new_model ::
  "('d, 's, 'm, 'g) train_env \<Rightarrow> string \<Rightarrow> kwargs \<Rightarrow> ('d, 's, 'm) ModelTrainer
     \<Rightarrow> error + ('d, 's, 'm) ModelTrainer" where
  "set_new_model env model_type params t =
     (case (if model_type = ''RF'' then Some (RandomForestRegressor env (SEED env))
            else if model_type = ''XGB'' then Some (XGBRegressor env (SEED env))
            else if model_type = ''KNN'' then Some (KNeighborsRegressor env)
            else if model_type = ''Baseline'' then Some (BaselineModel env)
            else None) of
        None \<Rightarrow>
          Inr (t\<lparr>mt_out := mt_out t @
            [LogError (''Sorry, training for mode_type '' @ model_type
               @ '' has not been implemented yet.'')]\<rparr>)
      | Some m \<Rightarrow>
         (let t1 = t\<lparr>mt_model := Some m, mt_model_type := Some model_type\<rparr>
          in if params \<noteq> [] then set_model_params env params t1 else Inr t1))"

definition ModelTrainer_init ::
  "('d, 's, 'm, 'g) train_env \<Rightarrow> 'd \<Rightarrow> string \<Rightarrow> error + ('d, 's, 'm) ModelTrainer" where
  \<comment> \<open>\<open>__init__\<close>; \<open>d\<close> is the Dataset that the constructor call of line 29 builds from \<open>df\<close>.\<close>
  "ModelTrainer_init env d model_type =
     (case set_new_model env model_type [] new_trainer of
        Inl e \<Rightarrow> Inl e
      | Inr t \<Rightarrow> Inr (t\<lparr>mt_data := Some d\<rparr>))"

definition not_prepared_msg :: string where
  \<comment> \<open>The message of lines 88-89 and 199-200; the line continuation keeps the indentation.\<close>
  "not_prepared_msg =
     ''X_train, Y_train not defined: Please prepare train and test '' @ replicate 24 CHR '' ''
       @ ''set before training by calling ModelTrainer.prepare_train_test_set()''"

definition train ::
  "('d, 's, 'm, 'g) train_env \<Rightarrow> kwargs \<Rightarrow> ('d, 's, 'm) ModelTrainer
     \<Rightarrow> error + ('d, 's, 'm) ModelTrainer" where
  "train env params t =
     (case mt_model t of
        None \<Rightarrow> Inl (AttributeError ''model'')
      | Some m \<Rightarrow>
         (case set_params env m params of
            Inl e \<Rightarrow> Inl e
          | Inr m1 \<Rightarrow>
             (let t1 = t\<lparr>mt_model := Some m1\<rparr>
              in case mt_X_train t1 of
                   None \<Rightarrow> Inr (t1\<lparr>mt_out := mt_out t1 @ [LogError not_prepared_msg]\<rparr>)
                 | Some X \<Rightarrow>
                    (case mt_model_type t1 of
                       None \<Rightarrow> Inl (AttributeError ''model_type'')
                     | Some mtype \<Rightarrow>
                        (case mt_Y_train t1 of
                           None \<Rightarrow> Inl (AttributeError ''Y_train'')
                         | Some Y \<Rightarrow>
                            (case fit env m1 X Y of
                               Inl e \<Rightarrow> Inl e
                             | Inr m2 \<Rightarrow>
                                 Inr (t1\<lparr>mt_model := Some m2,
                                         mt_out := mt_out t1 @
                                           [LogInfo (''Training '' @ mtype), ModelFit]\<rparr>)))))))"

definition boolean_mask :: "bool list \<Rightarrow> 'a list \<Rightarrow> 'a list" where
  \<comment> \<open>\<open>frame[mask]\<close> for a mask \<open>bs\<close> with one entry per row.\<close>
  "boolean_mask bs rows = map snd (filter fst (zip bs rows))"

definition prepare_train_test_set ::
  "('d, 's, 'm, 'g) train_env \<Rightarrow> bool \<Rightarrow> rat \<Rightarrow> rat \<Rightarrow> bool \<Rightarrow> ('d, 's, 'm) ModelTrainer
     \<Rightarrow> error + ((matrix \<times> matrix \<times> series \<times> series) option \<times> ('d, 's, 'm) ModelTrainer)" where
  "prepare_train_test_set env remove_outliers outliers_tol test_set_size inplace t =
     (case
        (if remove_outliers then
           (case mt_data t of
              None \<Rightarrow> Inl (AttributeError ''data'')
            | Some d \<Rightarrow>
               (case determine_outliers_mask env d outliers_tol of
                  Inl e \<Rightarrow> Inl e
                | Inr outlier_mask \<Rightarrow>
                   (case mt_features t of
                      None \<Rightarrow> Inl (AttributeError ''features'')
                    | Some f \<Rightarrow>
                       if length outlier_mask \<noteq> length f then Inl (External ''IndexingError'')
                       else
                         (let datapoints = length (filter id outlier_mask)
                          in Inr (boolean_mask outlier_mask f,
                                  t\<lparr>mt_features := Some (boolean_mask outlier_mask f),
                                    mt_datapoints := Some datapoints,
                                    mt_out := mt_out t @
                                      [LogInfoInts
                                         ''Removed %i outliers, %i datapoints remaining for training/testing''
                                         [length outlier_mask - datapoints, datapoints]]\<rparr>)))))
         else
           (case mt_features t of
              None \<Rightarrow> Inl (AttributeError ''features'')
            | Some f \<Rightarrow> Inr (f, t\<lparr>mt_datapoints := Some (length f)\<rparr>))) of
        Inl e \<Rightarrow> Inl e
      | Inr (f, t1) \<Rightarrow>
         (case train_test_split env
                 (map (\<lambda>r. (fr_idx r, fr_values r)) f) (map (\<lambda>r. (fr_idx r, human_wc r)) f)
                 test_set_size (SEED env) of
            Inl e \<Rightarrow> Inl e
          | Inr (X_train_raw, X_test_raw, Y_train, Y_test) \<Rightarrow>
             (let t2 = t1\<lparr>mt_test_idx := Some (map fst X_test_raw),
                          mt_out := mt_out t1 @
                            [LogDebug ''Fit scaler to training set and transform training and test set'']\<rparr>
              in case scaler_fit_transform env (StandardScaler env) X_train_raw of
                   Inl e \<Rightarrow> Inl e
                 | Inr (sc, X_train) \<Rightarrow>
                    (case scaler_transform env sc X_test_raw of
                       Inl e \<Rightarrow> Inl e
                     | Inr X_test \<Rightarrow>
                        (let t3 = t2\<lparr>mt_scaler := Some sc\<rparr>
                         in if \<not> inplace then Inr (Some (X_train, X_test, Y_train, Y_test), t3)
                            else Inr (None, t3\<lparr>mt_X_train := Some X_train, mt_X_test := Some X_test,
                                                mt_Y_train := Some Y_train, mt_Y_test := Some Y_test\<rparr>))))))"

fun itertools_product :: "'a list list \<Rightarrow> 'a list list" where
  \<comment> \<open>\<open>itertools.product(*iterables)\<close>: the first iterable varies slowest.\<close>
  "itertools_product [] = [[]]"
| "itertools_product (xs # xss) = concat (map (\<lambda>x. map ((#) x) (itertools_product xss)) xs)"

definition grid_search_prompt :: string where
  \<comment> \<open>The prompt of line 184, with its leading newline.\<close>
  "grid_search_prompt = CHR 0x0A # ''Continue with these c-v parameters ? (y/n)  ''"

definition grid_search_report :: "string \<Rightarrow> string \<Rightarrow> (string \<times> pyval list) list \<Rightarrow> event list" where
  \<comment> \<open>Lines 176 to 184: what is printed after the first banner, up to the prompt.\<close>
  "grid_search_report class_name scoring_metric cv_params =
     (let params_list = itertools_product (map snd cv_params);
          n_combi = length params_list
      in [Print class_name, Banner '' Metric for evaluation: '', Print scoring_metric,
          Banner '' Params to be tested: '']
         @ map (\<lambda>(key, value). PrintParam key value) cv_params
         @ [PrintCombinations n_combi, Input grid_search_prompt])"

definition grid_search ::
  "('d, 's, 'm, 'g) train_env \<Rightarrow> (string \<times> pyval list) list \<Rightarrow> nat \<Rightarrow> nat \<Rightarrow> string \<Rightarrow> string
     \<Rightarrow> ('d, 's, 'm) ModelTrainer \<Rightarrow> error + ('g option \<times> ('d, 's, 'm) ModelTrainer)" where
  \<comment> \<open>\<open>answer\<close> is what \<open>input\<close> returns on line 184.\<close>
  "grid_search env cv_params cv_folds verbose scoring_metric answer t =
     (case mt_model_type t of
        None \<Rightarrow> Inl (AttributeError ''model_type'')
      | Some mtype \<Rightarrow>
         (case (if mtype = ''RF'' then
                   Some (RandomForestRegressor env (SEED env), ''RandomForestRegressor'')
                else if mtype = ''XGB'' then Some (XGBRegressor env (SEED env), ''XGBRegressor'')
                else if mtype = ''KNN'' then Some (KNeighborsRegressor env, ''KNeighborsRegressor'')
                else None) of
            None \<Rightarrow> Inl (UnboundLocalError ''estimator'')
          | Some (estimator, class_name) \<Rightarrow>
             (let out = mt_out t @ [Banner '' Estimator: '']
                          @ grid_search_report class_name scoring_metric cv_params
              in if answer = ''n'' \<or> answer = ''no'' then
                   Inr (None, t\<lparr>mt_out := out @ [Print ''Please redefine inputs.'']\<rparr>)
                 else
                   (case (mt_X_train t, mt_Y_train t) of
                      (Some X, Some Y) \<Rightarrow>
                        (case GridSearchCV_fit env estimator cv_params scoring_metric cv_folds (- 1)
                                verbose X Y of
                           Inl (AttributeError a) \<Rightarrow> Inl (AttributeError ''best_estimator_'')
                         | Inl e \<Rightarrow> Inl e
                         | Inr gs \<Rightarrow>
                            Inr (Some gs, t\<lparr>mt_model := Some (best_estimator env gs),
                                            mt_out := out @ [GridSearchFit]\<rparr>))
                    | _ \<Rightarrow> Inl (AttributeError ''best_estimator_'')))))"

section \<open>litreading/base.py and litreading/grade.py: BaseModel and Grader\<close>

text \<open>
  A pandas DataFrame: its index labels and its named columns. In a frame of pandas every
  column has one cell per label, which \<open>wf_frame\<close> says.
\<close>

record dataframe =
  df_index :: "int list"
  df_columns :: "(string \<times> pyval list) list"

definition wf_frame :: "dataframe \<Rightarrow> bool" where
  "wf_frame df = list_all (\<lambda>c. length (snd c) = length (df_index df)) (df_columns df)"

definition getitem :: "dataframe \<Rightarrow> string \<Rightarrow> error + pyval list" where
  \<comment> \<open>\<open>df[col].values\<close>: KeyError when the frame has no such column.\<close>
  "getitem df col = (case map_of (df_columns df) col of None \<Rightarrow> Inl (KeyError col) | Some vs \<Rightarrow> Inr vs)"

text \<open>What \<open>open_file\<close> deserialises: an sklearn Pipeline or an object of another class.\<close>

datatype 'p pyobject = Pipeline 'p | NotPipeline pyval


text \<open>
  What the two modules import and call but do not define: \<open>Path.is_file\<close> and
  \<open>Path.suffix\<close> of pathlib, \<open>open_file\<close> of the utilities, the class-level preprocessor's
  \<open>preprocess_data\<close> (called with \<open>verbose=False\<close>), the constant
  \<open>BASELINE_MODEL_PREDICTION_COL\<close>, and the \<open>predict\<close> of a Pipeline.
\<close>

record 'p lit_env =
  is_file :: "string \<Rightarrow> bool"
  suffix :: "string \<Rightarrow> string"
  lit_open_file :: "string \<Rightarrow> error + 'p pyobject"
  preprocess_data :: "dataframe \<Rightarrow> error + dataframe"
  BASELINE_MODEL_PREDICTION_COL :: string
  pipeline_predict :: "'p \<Rightarrow> dataframe \<Rightarrow> error + pyval list"

record 'p BaseModel =
  bm_baseline_mode :: bool
  bm_model :: "'p option"

definition BaseModel_init :: "pyval \<Rightarrow> error + 'p BaseModel" where
  \<comment> \<open>\<open>BaseModel.__init__\<close>; \<open>isinstance(baseline_mode, bool)\<close> holds of \<open>True\<close> and \<open>False\<close> only.\<close>
  "BaseModel_init baseline_mode =
     (case baseline_mode of
        PyBool b \<Rightarrow> Inr \<lparr>bm_baseline_mode = b, bm_model = None\<rparr>
      | _ \<Rightarrow> Inl (TypeError ''baseline_mode must be a boolean''))"

definition load_model_from_file :: "'p lit_env \<Rightarrow> string option \<Rightarrow> error + 'p" where
  \<comment> \<open>The argument is a path, or \<open>None\<close> (the default of \<open>Grader.__init__\<close>), on which \<open>Path\<close> raises.\<close>
  "load_model_from_file env model_filepath =
     (case model_filepath of
        None \<Rightarrow> Inl (TypeError ''expected str, bytes or os.PathLike object, not NoneType'')
      | Some p \<Rightarrow>
          if \<not> is_file env p then Inl (FileNotFoundError p)
          else if suffix env p \<noteq> ''.pkl'' then Inl (ValueError ''Please give a path to pickle file'')
          else
            (case lit_open_file env p of
               Inl e \<Rightarrow> Inl e
             | Inr obj \<Rightarrow>
                 (case obj of
                    Pipeline m \<Rightarrow> Inr m
                  | NotPipeline v \<Rightarrow>
                      Inl (ValueError
                        ''Incompatible model: please give a filepath to a sklearn pipeline object''))))"

definition Grader_init :: "'p lit_env \<Rightarrow> string option \<Rightarrow> pyval \<Rightarrow> error + 'p BaseModel" where
  \<comment> \<open>\<open>Grader.__init__\<close>; the \<open>logger.info\<close> line after the load is not kept.\<close>
  "Grader_init env model_filepath baseline_mode =
     (case BaseModel_init baseline_mode of
        Inl e \<Rightarrow> Inl e
      | Inr self \<Rightarrow>
          if \<not> bm_baseline_mode self then
            (case load_model_from_file env model_filepath of
               Inl e \<Rightarrow> Inl e
             | Inr m \<Rightarrow> Inr (self\<lparr>bm_model := Some m\<rparr>))
          else Inr self)"

definition BaseModel_predict :: "'p lit_env \<Rightarrow> 'p BaseModel \<Rightarrow> dataframe \<Rightarrow> error + pyval list" where
  \<comment> \<open>\<open>BaseModel._predict\<close>\<close>
  "BaseModel_predict env self X =
     (case preprocess_data env X of
        Inl e \<Rightarrow> Inl e
      | Inr X_processed \<Rightarrow>
          if bm_baseline_mode self then getitem X_processed (BASELINE_MODEL_PREDICTION_COL env)
          else
            (case bm_model self of
               None \<Rightarrow> Inl (AttributeError ''predict'')
             | Some m \<Rightarrow> pipeline_predict env m X_processed))"

definition grade :: "'p lit_env \<Rightarrow> 'p BaseModel \<Rightarrow> dataframe \<Rightarrow> error + pyval list" where
  \<comment> \<open>\<open>Grader.grade\<close>\<close>
  "grade env self X = BaseModel_predict env self X"

section \<open>Concrete collaborators\<close>

text \<open>
  Small stand-ins for the outside collaborators, on which the definitions above can be
  evaluated. In \<open>example_grade_env\<close> the scaler and the regressor are the identity, so the
  feature table is the list of predicted word counts, and a loaded model is the path it
  was read from.
\<close>

definition example_grade_env :: "(fval list, unit, string) grade_env" where
  "example_grade_env =
     \<lparr>MODELS_PATH = ''models/'', open_file = (\<lambda>path. Inr path),
      transform = (\<lambda>s f. Inr f), predict = (\<lambda>m f. Inr f)\<rparr>"

definition example_row :: "int \<Rightarrow> fval \<Rightarrow> row" where
  "example_row l d =
     \<lparr>idx = l, prompt = ''the cat'', asr_transcript = ''the cat'', scored_duration = d,
      wcpm_estimations = None\<rparr>"

definition example_grader :: "fval list \<Rightarrow> row list \<Rightarrow> (fval list, unit, string) DataGrader" where
  "example_grader wc rows =
     \<lparr>dg_data = rows, dg_features = wc, dg_scaler = (), dg_model = ''models/XGB_0.joblib'',
      dg_model_type = ''XGB'', dg_log = []\<rparr>"

text \<open>
  For \<open>train.py\<close>: a regressor is the record of its class, random state, parameters and
  the data it was fitted on; a scaler is the frame it was fitted on and transforms by
  dropping the labels; the split puts the first row in the test partition; the Dataset is
  its own outlier mask; a fitted search is its best estimator.
\<close>

record example_regressor =
  er_class :: string
  er_random_state :: "int option"
  er_params :: kwargs
  er_fitted_on :: "(matrix \<times> series) option"

definition example_train_env ::
  "(bool list, xframe option, example_regressor, example_regressor) train_env" where
  "example_train_env =
     \<lparr>SEED = 42,
      RandomForestRegressor = (\<lambda>seed. \<lparr>er_class = ''RandomForestRegressor'',
         er_random_state = Some seed, er_params = [], er_fitted_on = None\<rparr>),
      XGBRegressor = (\<lambda>seed. \<lparr>er_class = ''XGBRegressor'',
         er_random_state = Some seed, er_params = [], er_fitted_on = None\<rparr>),
      KNeighborsRegressor = \<lparr>er_class = ''KNeighborsRegressor'',
         er_random_state = None, er_params = [], er_fitted_on = None\<rparr>,
      BaselineModel = \<lparr>er_class = ''BaselineModel'',
         er_random_state = None, er_params = [], er_fitted_on = None\<rparr>,
      set_params = (\<lambda>m kw. Inr (m\<lparr>er_params := kw @ er_params m\<rparr>)),
      fit = (\<lambda>m X Y. Inr (m\<lparr>er_fitted_on := Some (X, Y)\<rparr>)),
      determine_outliers_mask = (\<lambda>d tol. Inr d),
      train_test_split = (\<lambda>X y test_size seed. Inr (drop 1 X, take 1 X, drop 1 y, take 1 y)),
      StandardScaler = None,
      scaler_fit_transform = (\<lambda>s X. Inr (Some X, map snd X)),
      scaler_transform = (\<lambda>s X. Inr (map snd X)),
      GridSearchCV_fit = (\<lambda>estimator grid scoring cv n_jobs verbose X Y.
         Inr (estimator\<lparr>er_params := [(''cv'', PyInt (int cv))], er_fitted_on := Some (X, Y)\<rparr>)),
      best_estimator = (\<lambda>gs. gs)\<rparr>"

definition example_trainer ::
  "(bool list, xframe option, example_regressor) ModelTrainer" where
  "example_trainer =
     new_trainer\<lparr>mt_model := Some (XGBRegressor example_train_env 42),
                 mt_model_type := Some ''XGB'', mt_data := Some [True, True, True]\<rparr>"

definition example_features :: "feature_row list" where
  "example_features =
     [\<lparr>fr_idx = 0, fr_values = [Fin 6, Fin 30], human_wc = Fin 6\<rparr>,
      \<lparr>fr_idx = 1, fr_values = [Fin 4, Fin 20], human_wc = Fin 5\<rparr>,
      \<lparr>fr_idx = 2, fr_values = [Fin 9, Fin 60], human_wc = Fin 8\<rparr>]"

definition example_prepared_trainer ::
  "(bool list, xframe option, example_regressor) ModelTrainer" where
  "example_prepared_trainer =
     example_trainer\<lparr>mt_features := Some example_features,
       mt_X_train := Some [[Fin 4, Fin 20], [Fin 9, Fin 60]],
       mt_Y_train := Some [(1, Fin 5), (2, Fin 8)]\<rparr>"

definition example_grid :: "(string \<times> pyval list) list" where
  "example_grid =
     [(''learning_rate'', [PyFloat (Fin (1 / 20)), PyFloat (Fin (1 / 10)), PyFloat (Fin (3 / 10))]),
      (''n_estimators'', [PyInt 10, PyInt 30])]"

definition example_report :: "event list" where
  "example_report =
     [Banner '' Estimator: '', Print ''XGBRegressor'', Banner '' Metric for evaluation: '',
      Print ''r2'', Banner '' Params to be tested: '',
      PrintParam ''learning_rate'' [PyFloat (Fin (1 / 20)), PyFloat (Fin (1 / 10)), PyFloat (Fin (3 / 10))],
      PrintParam ''n_estimators'' [PyInt 10, PyInt 30],
      PrintCombinations 6,
      Input grid_search_prompt]"

text \<open>
  For litreading: three files exist, of which \<open>model.pkl\<close> holds a Pipeline (the number
  7, which predicts 7 for every row) and \<open>notes.pkl\<close> holds a string; the preprocessor
  appends the baseline column.
\<close>

definition example_lit_env :: "nat lit_env" where
  "example_lit_env =
     \<lparr>is_file = (\<lambda>p. p = ''model.pkl'' \<or> p = ''notes.pkl'' \<or> p = ''model.joblib''),
      suffix = (\<lambda>p. if p = ''model.pkl'' \<or> p = ''notes.pkl'' \<or> p = ''missing.pkl'' then ''.pkl''
                     else if p = ''model.joblib'' then ''.joblib'' else ''''),
      lit_open_file = (\<lambda>p. if p = ''model.pkl'' then Inr (Pipeline 7)
                             else if p = ''notes.pkl'' then Inr (NotPipeline (PyStr ''notes''))
                             else Inl (External ''UnpicklingError'')),
      preprocess_data = (\<lambda>X. Inr (X\<lparr>df_columns := df_columns X @
                             [(''correct_words'', map (\<lambda>l. PyInt 6) (df_index X))]\<rparr>)),
      BASELINE_MODEL_PREDICTION_COL = ''correct_words'',
      pipeline_predict = (\<lambda>m X. Inr (map (\<lambda>l. PyFloat (Fin (of_nat m))) (df_index X)))\<rparr>"

definition example_frame :: dataframe where
  "example_frame =
     \<lparr>df_index = [0, 1],
      df_columns = [(''prompt'', [PyStr ''the cat sat'', PyStr ''a dog'']),
                    (''asr_transcript'', [PyStr ''the cat sat'', PyStr ''a dog'']),
                    (''scored_duration'', [PyFloat (Fin 30), PyFloat (Fin 20)])]\<rparr>"

section \<open>Properties of DataGrader\<close>

subsection \<open>Series lookups\<close>

lemma set_outer_index: "set (outer_index i1 i2) = set i1 \<union> set i2"
  by (auto simp: outer_index_def)

lemma series_get_map_keys:
  "series_get (map (\<lambda>l. (l, f l)) ls) l = (if l \<in> set ls then f l else NaN)"
  by (simp add: series_get_def map_of_map_restrict restrict_map_def)

lemma series_get_round: "series_get (series_round s) l = fround (series_get s l)"
  by (induction s) (auto simp: series_get_def series_round_def)

lemma series_get_truediv:
  "series_get (series_truediv s c) l = (case map_of s l of None \<Rightarrow> NaN | Some v \<Rightarrow> fdiv v c)"
  by (induction s) (auto simp: series_get_def series_truediv_def)

lemma map_of_duration_series:
  "distinct (map idx rows) \<Longrightarrow> r \<in> set rows
     \<Longrightarrow> map_of (duration_series rows) (idx r) = Some (scored_duration r)"
  unfolding duration_series_def
  by (rule map_of_is_SomeI) (auto simp: comp_def)

lemma index_of_durations: "map fst (series_truediv (duration_series rows) c) = map idx rows"
  by (simp add: series_truediv_def duration_series_def comp_def split_def)


text \<open>
  The estimate at the label of a row: the prediction at that label (NaN when the
  predictions have no such label) over the row's duration in minutes, after filling.
\<close>

lemma wcpm_of_at_row:
  assumes "distinct (map idx rows)" "r \<in> set rows"
  shows "series_get (wcpm_of wc rows) (idx r) =
     fround (case fill_binop (series_get (pd_Series wc) (idx r))
                   (fdiv (scored_duration r) (Fin 60)) (Fin 0) of (x, y) \<Rightarrow> fdiv x y)"
proof -
  have "idx r \<in> set (outer_index (map fst (pd_Series wc))
                        (map fst (series_truediv (duration_series rows) (Fin 60))))"
    using assms(2) by (simp add: set_outer_index index_of_durations)
  then show ?thesis
    using assms
    by (simp add: wcpm_of_def series_get_round series_div_def series_get_map_keys
        series_get_truediv map_of_duration_series)
qed

lemma fill_div_zero_not_finite:
  "\<not> is_finite (fround (case fill_binop x (Fin 0) (Fin 0) of (a, b) \<Rightarrow> fdiv a b))"
  by (cases x) (simp_all add: fill_binop_def)

lemma estimate_wcpm_returns:
  assumes "transform env (dg_scaler g) (dg_features g) = Inr f"
    and "predict env (dg_model g) f = Inr wc"
  shows "estimate_wcpm env False None g =
           Inr (Some (wcpm_of wc (dg_data g)),
                g\<lparr>dg_log := dg_log g @ [LogDebug ''Estimating wcpm''], dg_features := f\<rparr>)"
    and "estimate_wcpm env True None g =
           Inr (None,
                g\<lparr>dg_log := dg_log g @ [LogDebug ''Estimating wcpm''], dg_features := f,
                  dg_data := setitem_wcpm (wcpm_of wc (dg_data g)) (dg_data g)\<rparr>)"
  using assms by (simp_all add: estimate_wcpm_def Let_def)

subsection \<open>A zero duration\<close>

text \<open>
  C1 (as the code has it). \<open>estimate_wcpm\<close> has no division guard and raises nothing of
  its own: whenever the scaler and the regressor return, it returns, with or without
  \<open>inplace\<close>, and for every row whose \<open>scored_duration\<close> is 0 the estimate it returns (and
  stores in \<open>wcpm_estimations\<close>) is an infinity or NaN, never a finite number. Row labels
  are taken to be distinct.
\<close>

theorem estimate_wcpm_zero_duration:
  assumes "transform env (dg_scaler g) (dg_features g) = Inr f"
    and "predict env (dg_model g) f = Inr wc"
    and "distinct (map idx (dg_data g))"
    and "r \<in> set (dg_data g)"
    and "scored_duration r = Fin 0"
  shows "\<exists>s g1 g2 v.
           estimate_wcpm env False None g = Inr (Some s, g1) \<and>
           estimate_wcpm env True None g = Inr (None, g2) \<and>
           r\<lparr>wcpm_estimations := Some v\<rparr> \<in> set (dg_data g2) \<and>
           series_get s (idx r) = v \<and> \<not> is_finite v"
proof -
  let ?s = "wcpm_of wc (dg_data g)"
  let ?v = "series_get ?s (idx r)"
  have "fdiv (scored_duration r) (Fin 60) = Fin 0"
    using assms(5) by simp
  then have "\<not> is_finite ?v"
    using assms(3,4) by (simp add: wcpm_of_at_row fill_div_zero_not_finite)
  moreover have "r\<lparr>wcpm_estimations := Some ?v\<rparr> \<in> set (setitem_wcpm ?s (dg_data g))"
    using assms(4) by (auto simp: setitem_wcpm_def)
  ultimately show ?thesis
    using estimate_wcpm_returns[OF assms(1,2)] by auto
qed

text \<open>The theorem at a batch of one row with duration 0 and prediction 0: the estimate is NaN.\<close>

theorem estimate_wcpm_zero_duration_witness:
  "\<exists>s g1 g2 v.
     estimate_wcpm example_grade_env False None (example_grader [Fin 0] [example_row 0 (Fin 0)])
       = Inr (Some s, g1) \<and>
     estimate_wcpm example_grade_env True None (example_grader [Fin 0] [example_row 0 (Fin 0)])
       = Inr (None, g2) \<and>
     (example_row 0 (Fin 0))\<lparr>wcpm_estimations := Some v\<rparr> \<in> set (dg_data g2) \<and>
     series_get s (idx (example_row 0 (Fin 0))) = v \<and> \<not> is_finite v"
  by (rule estimate_wcpm_zero_duration[where f = "[Fin 0]" and wc = "[Fin 0]"])
     (simp_all add: example_grade_env_def example_grader_def example_row_def)

text \<open>
  C1 as stated fails: one row with duration 0 and prediction 5. No exception is raised,
  and \<open>wcpm_estimations\<close> holds plus infinity.
\<close>

theorem estimate_wcpm_zero_duration_counterexample:
  "estimate_wcpm example_grade_env True None (example_grader [Fin 5] [example_row 0 (Fin 0)]) =
     Inr (None,
          \<lparr>dg_data = [(example_row 0 (Fin 0))\<lparr>wcpm_estimations := Some PInf\<rparr>],
           dg_features = [Fin 5], dg_scaler = (), dg_model = ''models/XGB_0.joblib'',
           dg_model_type = ''XGB'', dg_log = [LogDebug ''Estimating wcpm'']\<rparr>)"
  by (simp add: estimate_wcpm_def example_grade_env_def example_grader_def example_row_def
      wcpm_of_def setitem_wcpm_def series_round_def series_div_def series_truediv_def
      duration_series_def pd_Series_def outer_index_def fill_binop_def series_get_def)

subsection \<open>Rounding of the estimate\<close>








subsection \<open>Changing the model\<close>

text \<open>
  C10. \<open>set_model\<close> returns with the model and the model type as they were whenever the
  requested type is the current one or is neither \<open>RF\<close> nor \<open>XGB\<close>. If it returns with
  either of them changed, the requested type is \<open>RF\<close> or \<open>XGB\<close> and differs from the
  current one, the new type is the requested one and the new model is what \<open>open_file\<close>
  read from that type's file. And a recognised, different type whose file loads does
  replace both.
\<close>

theorem set_model_frame:
  "(dg_model_type g = t \<or> t \<notin> {''RF'', ''XGB''} \<longrightarrow>
      (\<exists>g'. set_model env t g = Inr g' \<and> dg_model g' = dg_model g \<and>
            dg_model_type g' = dg_model_type g)) \<and>
   (\<forall>g'. set_model env t g = Inr g' \<and>
          (dg_model g' \<noteq> dg_model g \<or> dg_model_type g' \<noteq> dg_model_type g) \<longrightarrow>
          t \<in> {''RF'', ''XGB''} \<and> t \<noteq> dg_model_type g \<and> dg_model_type g' = t \<and>
          open_file env (MODELS_PATH env @
             (if t = ''RF'' then ''rf_hypertuned.pkl'' else ''xgb_hypertuned.pkl'')) = Inr (dg_model g')) \<and>
   (\<forall>m. t \<in> {''RF'', ''XGB''} \<and> t \<noteq> dg_model_type g \<and>
        open_file env (MODELS_PATH env @
             (if t = ''RF'' then ''rf_hypertuned.pkl'' else ''xgb_hypertuned.pkl'')) = Inr m \<longrightarrow>
        (\<exists>g'. set_model env t g = Inr g' \<and> dg_model g' = m \<and> dg_model_type g' = t))"
  by (auto simp: set_model_def load_model_def Let_def split: sum.splits if_splits)

text \<open>
  The theorem at a grader of type \<open>XGB\<close>: asking for \<open>SVM\<close> changes nothing, asking for
  \<open>RF\<close> loads \<open>rf_hypertuned.pkl\<close>.
\<close>

theorem set_model_frame_witness:
  "''SVM'' \<notin> {''RF'', ''XGB''} \<and>
   (\<exists>g'. set_model example_grade_env ''SVM'' (example_grader [] []) = Inr g' \<and>
         dg_model g' = ''models/XGB_0.joblib'' \<and> dg_model_type g' = ''XGB'') \<and>
   ''RF'' \<noteq> dg_model_type (example_grader [] []) \<and>
   (\<exists>g'. set_model example_grade_env ''RF'' (example_grader [] []) = Inr g' \<and>
         dg_model g' = ''models/rf_hypertuned.pkl'' \<and> dg_model_type g' = ''RF'')"
  using set_model_frame[of "example_grader [] []" "''SVM''" example_grade_env]
    set_model_frame[of "example_grader [] []" "''RF''" example_grade_env]
  by (simp add: example_grade_env_def example_grader_def)

section \<open>Properties of ModelTrainer\<close>

subsection \<open>Choosing the regressor\<close>

text \<open>
  C4 (as the code has it). \<open>set_new_model\<close> installs a regressor for exactly the four names
  \<open>RF\<close>, \<open>XGB\<close>, \<open>KNN\<close> and \<open>Baseline\<close>, and records the name. For every other name, and
  whatever the parameters, it raises nothing: it logs an error and returns with the model
  and the model type as they were.
\<close>

theorem set_new_model_names:
  "(model_type \<notin> {''RF'', ''XGB'', ''KNN'', ''Baseline''} \<longrightarrow>
      set_new_model env model_type params t =
        Inr (t\<lparr>mt_out := mt_out t @
          [LogError (''Sorry, training for mode_type '' @ model_type
             @ '' has not been implemented yet.'')]\<rparr>)) \<and>
   set_new_model env ''RF'' [] t =
     Inr (t\<lparr>mt_model := Some (RandomForestRegressor env (SEED env)), mt_model_type := Some ''RF''\<rparr>) \<and>
   set_new_model env ''XGB'' [] t =
     Inr (t\<lparr>mt_model := Some (XGBRegressor env (SEED env)), mt_model_type := Some ''XGB''\<rparr>) \<and>
   set_new_model env ''KNN'' [] t =
     Inr (t\<lparr>mt_model := Some (KNeighborsRegressor env), mt_model_type := Some ''KNN''\<rparr>) \<and>
   set_new_model env ''Baseline'' [] t =
     Inr (t\<lparr>mt_model := Some (BaselineModel env), mt_model_type := Some ''Baseline''\<rparr>)"
proof -
  have unknown: "model_type \<notin> {''RF'', ''XGB'', ''KNN'', ''Baseline''} \<longrightarrow>
      set_new_model env model_type params t =
        Inr (t\<lparr>mt_out := mt_out t @
          [LogError (''Sorry, training for mode_type '' @ model_type
             @ '' has not been implemented yet.'')]\<rparr>)"
    by (simp add: set_new_model_def)
  have known: "set_new_model env ''RF'' [] t =
     Inr (t\<lparr>mt_model := Some (RandomForestRegressor env (SEED env)), mt_model_type := Some ''RF''\<rparr>)"
    "set_new_model env ''XGB'' [] t =
     Inr (t\<lparr>mt_model := Some (XGBRegressor env (SEED env)), mt_model_type := Some ''XGB''\<rparr>)"
    "set_new_model env ''KNN'' [] t =
     Inr (t\<lparr>mt_model := Some (KNeighborsRegressor env), mt_model_type := Some ''KNN''\<rparr>)"
    "set_new_model env ''Baseline'' [] t =
     Inr (t\<lparr>mt_model := Some (BaselineModel env), mt_model_type := Some ''Baseline''\<rparr>)"
    by (simp_all add: set_new_model_def)
  from unknown known show ?thesis by blast
qed

text \<open>The theorem at the unknown name \<open>SVM\<close> and at \<open>KNN\<close>, on a trainer of type \<open>XGB\<close>.\<close>

theorem set_new_model_names_witness:
  "''SVM'' \<notin> {''RF'', ''XGB'', ''KNN'', ''Baseline''} \<and>
   set_new_model example_train_env ''SVM'' [] example_trainer =
     Inr (example_trainer\<lparr>mt_out := mt_out example_trainer @
       [LogError ''Sorry, training for mode_type SVM has not been implemented yet.'']\<rparr>) \<and>
   set_new_model example_train_env ''KNN'' [] example_trainer =
     Inr (example_trainer\<lparr>mt_model := Some (KNeighborsRegressor example_train_env),
                          mt_model_type := Some ''KNN''\<rparr>)"
  using set_new_model_names[of "''SVM''" example_train_env "[]" example_trainer]
  by simp

text \<open>
  C4 as stated fails: on a new trainer the unknown name \<open>SVM\<close> raises nothing, and the
  constructor returns a trainer that has a log line and no model.
\<close>

theorem set_new_model_unknown_counterexample:
  "set_new_model example_train_env ''SVM'' [] new_trainer =
     Inr (new_trainer\<lparr>mt_out :=
       [LogError ''Sorry, training for mode_type SVM has not been implemented yet.'']\<rparr>) \<and>
   ModelTrainer_init example_train_env [True] ''SVM'' =
     Inr (new_trainer\<lparr>mt_data := Some [True], mt_out :=
       [LogError ''Sorry, training for mode_type SVM has not been implemented yet.'']\<rparr>) \<and>
   mt_model (new_trainer\<lparr>mt_data := Some [True], mt_out :=
       [LogError ''Sorry, training for mode_type SVM has not been implemented yet.'']\<rparr>
       :: (bool list, xframe option, example_regressor) ModelTrainer) = None"
  by (simp add: set_new_model_def ModelTrainer_init_def new_trainer_def)

subsection \<open>Preparing the train and test sets\<close>

text \<open>
  What \<open>prepare_train_test_set\<close> returns and stores when the feature table exists and the
  collaborators return; and what a returning in-place call has stored.
\<close>

lemma prepare_train_test_set_result:
  assumes "mt_features t = Some f0"
    and "if remove_outliers
         then \<exists>d bs. mt_data t = Some d \<and> determine_outliers_mask env d outliers_tol = Inr bs \<and>
                length bs = length f0 \<and> f = boolean_mask bs f0
         else f = f0"
    and "train_test_split env (map (\<lambda>r. (fr_idx r, fr_values r)) f)
           (map (\<lambda>r. (fr_idx r, human_wc r)) f) test_set_size (SEED env)
         = Inr (X_train_raw, X_test_raw, Y_train, Y_test)"
    and "scaler_fit_transform env (StandardScaler env) X_train_raw = Inr (sc, X_train)"
    and "scaler_transform env sc X_test_raw = Inr X_test"
  shows "\<exists>t1. prepare_train_test_set env remove_outliers outliers_tol test_set_size True t
                 = Inr (None, t1) \<and>
              mt_scaler t1 = Some sc \<and> mt_X_train t1 = Some X_train \<and>
              mt_X_test t1 = Some X_test \<and> mt_Y_train t1 = Some Y_train \<and>
              mt_Y_test t1 = Some Y_test \<and> mt_test_idx t1 = Some (map fst X_test_raw) \<and>
              mt_model t1 = mt_model t \<and> mt_model_type t1 = mt_model_type t"
    and "\<exists>t2. prepare_train_test_set env remove_outliers outliers_tol test_set_size False t
                 = Inr (Some (X_train, X_test, Y_train, Y_test), t2) \<and>
              mt_scaler t2 = Some sc \<and> mt_X_train t2 = mt_X_train t \<and>
              mt_Y_train t2 = mt_Y_train t"
  using assms
  by (cases remove_outliers; auto simp: prepare_train_test_set_def Let_def)+

lemma prepare_train_test_set_inplace:
  assumes "prepare_train_test_set env remove_outliers outliers_tol test_set_size True t = Inr (r, t2)"
  shows "r = None \<and> (\<exists>X Y. mt_X_train t2 = Some X \<and> mt_Y_train t2 = Some Y) \<and>
         mt_model t2 = mt_model t \<and> mt_model_type t2 = mt_model_type t"
  using assms
  by (auto simp: prepare_train_test_set_def Let_def
      split: if_splits option.splits sum.splits prod.splits)

text \<open>
  C6. With the feature table \<open>f0\<close> (\<open>f\<close> after the optional outlier removal),
  \<open>prepare_train_test_set\<close> calls \<open>train_test_split\<close> with the random state \<open>SEED\<close>, fits a
  new \<open>StandardScaler\<close> on the train partition alone and stores it, and stores (or
  returns) both partitions transformed by that scaler. The test partition has no part in
  the scaler: a split that gives the same train partition and any other test partition
  leads to the same scaler and the same transformed train partition.
\<close>

theorem prepare_train_test_set_scaler:
  assumes "mt_features t = Some f0"
    and "if remove_outliers
         then \<exists>d bs. mt_data t = Some d \<and> determine_outliers_mask env d outliers_tol = Inr bs \<and>
                length bs = length f0 \<and> f = boolean_mask bs f0
         else f = f0"
    and "train_test_split env (map (\<lambda>r. (fr_idx r, fr_values r)) f)
           (map (\<lambda>r. (fr_idx r, human_wc r)) f) test_set_size (SEED env)
         = Inr (X_train_raw, X_test_raw, Y_train, Y_test)"
    and "scaler_fit_transform env (StandardScaler env) X_train_raw = Inr (sc, X_train)"
    and "scaler_transform env sc X_test_raw = Inr X_test"
  shows "(\<exists>t1. prepare_train_test_set env remove_outliers outliers_tol test_set_size True t
                 = Inr (None, t1) \<and>
              mt_scaler t1 = Some sc \<and> mt_X_train t1 = Some X_train \<and>
              mt_X_test t1 = Some X_test \<and> mt_Y_train t1 = Some Y_train \<and>
              mt_Y_test t1 = Some Y_test \<and> mt_test_idx t1 = Some (map fst X_test_raw)) \<and>
         (\<exists>t2. prepare_train_test_set env remove_outliers outliers_tol test_set_size False t
                 = Inr (Some (X_train, X_test, Y_train, Y_test), t2) \<and>
              mt_scaler t2 = Some sc) \<and>
         (\<forall>split' X_test_raw' Y_test' X_test'.
            split' (map (\<lambda>r. (fr_idx r, fr_values r)) f)
                   (map (\<lambda>r. (fr_idx r, human_wc r)) f) test_set_size (SEED env)
              = Inr (X_train_raw, X_test_raw', Y_train, Y_test') \<and>
            scaler_transform env sc X_test_raw' = Inr X_test' \<longrightarrow>
            (\<exists>t1. prepare_train_test_set (env\<lparr>train_test_split := split'\<rparr>) remove_outliers
                      outliers_tol test_set_size True t = Inr (None, t1) \<and>
                   mt_scaler t1 = Some sc \<and> mt_X_train t1 = Some X_train \<and>
                   mt_X_test t1 = Some X_test'))"
proof -
  have a: "\<exists>t1. prepare_train_test_set env remove_outliers outliers_tol test_set_size True t
                 = Inr (None, t1) \<and>
              mt_scaler t1 = Some sc \<and> mt_X_train t1 = Some X_train \<and>
              mt_X_test t1 = Some X_test \<and> mt_Y_train t1 = Some Y_train \<and>
              mt_Y_test t1 = Some Y_test \<and> mt_test_idx t1 = Some (map fst X_test_raw)"
    using prepare_train_test_set_result(1)[OF assms] by blast
  have b: "\<exists>t2. prepare_train_test_set env remove_outliers outliers_tol test_set_size False t
                 = Inr (Some (X_train, X_test, Y_train, Y_test), t2) \<and>
              mt_scaler t2 = Some sc"
    using prepare_train_test_set_result(2)[OF assms] by blast
  have c: "\<exists>t1. prepare_train_test_set (env\<lparr>train_test_split := split'\<rparr>) remove_outliers
                      outliers_tol test_set_size True t = Inr (None, t1) \<and>
                   mt_scaler t1 = Some sc \<and> mt_X_train t1 = Some X_train \<and>
                   mt_X_test t1 = Some X_test'"
    if s: "split' (map (\<lambda>r. (fr_idx r, fr_values r)) f)
                   (map (\<lambda>r. (fr_idx r, human_wc r)) f) test_set_size (SEED env)
              = Inr (X_train_raw, X_test_raw', Y_train, Y_test')"
      and tr: "scaler_transform env sc X_test_raw' = Inr X_test'"
    for split' X_test_raw' Y_test' X_test'
  proof -
    let ?env = "env\<lparr>train_test_split := split'\<rparr>"
    have sel: "if remove_outliers
         then \<exists>d bs. mt_data t = Some d \<and> determine_outliers_mask ?env d outliers_tol = Inr bs \<and>
                length bs = length f0 \<and> f = boolean_mask bs f0
         else f = f0"
      using assms(2) by (auto split: if_splits)
    have sp: "train_test_split ?env (map (\<lambda>r. (fr_idx r, fr_values r)) f)
           (map (\<lambda>r. (fr_idx r, human_wc r)) f) test_set_size (SEED ?env)
         = Inr (X_train_raw, X_test_raw', Y_train, Y_test')"
      using s by simp
    have ft: "scaler_fit_transform ?env (StandardScaler ?env) X_train_raw = Inr (sc, X_train)"
      using assms(4) by simp
    have tr': "scaler_transform ?env sc X_test_raw' = Inr X_test'"
      using tr by simp
    have "\<exists>t1. prepare_train_test_set ?env remove_outliers outliers_tol test_set_size True t
                 = Inr (None, t1) \<and>
              mt_scaler t1 = Some sc \<and> mt_X_train t1 = Some X_train \<and>
              mt_X_test t1 = Some X_test' \<and> mt_Y_train t1 = Some Y_train \<and>
              mt_Y_test t1 = Some Y_test' \<and> mt_test_idx t1 = Some (map fst X_test_raw') \<and>
              mt_model t1 = mt_model t \<and> mt_model_type t1 = mt_model_type t"
      by (rule prepare_train_test_set_result(1)[OF assms(1) sel sp ft tr'])
    then show ?thesis by blast
  qed
  from a b c show ?thesis by blast
qed

text \<open>
  The theorem on three rows, split into the last two for training and the first for
  testing; and against a split that gives an empty test partition.
\<close>

theorem prepare_train_test_set_scaler_witness:
  "(\<exists>t1. prepare_train_test_set example_train_env False (1 / 10) (1 / 5) True
            (example_trainer\<lparr>mt_features := Some example_features\<rparr>) = Inr (None, t1) \<and>
         mt_scaler t1 = Some (Some [(1, [Fin 4, Fin 20]), (2, [Fin 9, Fin 60])]) \<and>
         mt_X_train t1 = Some [[Fin 4, Fin 20], [Fin 9, Fin 60]] \<and>
         mt_X_test t1 = Some [[Fin 6, Fin 30]] \<and>
         mt_Y_train t1 = Some [(1, Fin 5), (2, Fin 8)] \<and>
         mt_Y_test t1 = Some [(0, Fin 6)] \<and> mt_test_idx t1 = Some [0]) \<and>
   (\<exists>t1. prepare_train_test_set
            (example_train_env\<lparr>train_test_split := (\<lambda>X y test_size seed.
               Inr (drop 1 X, [], drop 1 y, []))\<rparr>)
            False (1 / 10) (1 / 5) True
            (example_trainer\<lparr>mt_features := Some example_features\<rparr>) = Inr (None, t1) \<and>
         mt_scaler t1 = Some (Some [(1, [Fin 4, Fin 20]), (2, [Fin 9, Fin 60])]) \<and>
         mt_X_train t1 = Some [[Fin 4, Fin 20], [Fin 9, Fin 60]] \<and>
         mt_X_test t1 = Some [])"
proof -
  have "(\<exists>t1. prepare_train_test_set example_train_env False (1 / 10) (1 / 5) True
            (example_trainer\<lparr>mt_features := Some example_features\<rparr>) = Inr (None, t1) \<and>
         mt_scaler t1 = Some (Some [(1, [Fin 4, Fin 20]), (2, [Fin 9, Fin 60])]) \<and>
         mt_X_train t1 = Some [[Fin 4, Fin 20], [Fin 9, Fin 60]] \<and>
         mt_X_test t1 = Some [[Fin 6, Fin 30]] \<and>
         mt_Y_train t1 = Some [(1, Fin 5), (2, Fin 8)] \<and>
         mt_Y_test t1 = Some [(0, Fin 6)] \<and> mt_test_idx t1 = Some (map fst [(0 :: int, [Fin 6, Fin 30])])) \<and>
        (\<exists>t2. prepare_train_test_set example_train_env False (1 / 10) (1 / 5) False
            (example_trainer\<lparr>mt_features := Some example_features\<rparr>)
            = Inr (Some ([[Fin 4, Fin 20], [Fin 9, Fin 60]], [[Fin 6, Fin 30]],
                         [(1, Fin 5), (2, Fin 8)], [(0, Fin 6)]), t2) \<and>
         mt_scaler t2 = Some (Some [(1, [Fin 4, Fin 20]), (2, [Fin 9, Fin 60])])) \<and>
        (\<forall>split' X_test_raw' Y_test' X_test'.
            split' (map (\<lambda>r. (fr_idx r, fr_values r)) example_features)
                   (map (\<lambda>r. (fr_idx r, human_wc r)) example_features) (1 / 5) (SEED example_train_env)
              = Inr ([(1, [Fin 4, Fin 20]), (2, [Fin 9, Fin 60])], X_test_raw',
                     [(1, Fin 5), (2, Fin 8)], Y_test') \<and>
            scaler_transform example_train_env (Some [(1, [Fin 4, Fin 20]), (2, [Fin 9, Fin 60])])
              X_test_raw' = Inr X_test' \<longrightarrow>
            (\<exists>t1. prepare_train_test_set (example_train_env\<lparr>train_test_split := split'\<rparr>) False
                      (1 / 10) (1 / 5) True (example_trainer\<lparr>mt_features := Some example_features\<rparr>)
                      = Inr (None, t1) \<and>
                   mt_scaler t1 = Some (Some [(1, [Fin 4, Fin 20]), (2, [Fin 9, Fin 60])]) \<and>
                   mt_X_train t1 = Some [[Fin 4, Fin 20], [Fin 9, Fin 60]] \<and>
                   mt_X_test t1 = Some X_test'))"
    by (rule prepare_train_test_set_scaler[where f0 = example_features])
       (simp_all add: example_train_env_def example_features_def)
  then have ab: "\<exists>t1. prepare_train_test_set example_train_env False (1 / 10) (1 / 5) True
            (example_trainer\<lparr>mt_features := Some example_features\<rparr>) = Inr (None, t1) \<and>
         mt_scaler t1 = Some (Some [(1, [Fin 4, Fin 20]), (2, [Fin 9, Fin 60])]) \<and>
         mt_X_train t1 = Some [[Fin 4, Fin 20], [Fin 9, Fin 60]] \<and>
         mt_X_test t1 = Some [[Fin 6, Fin 30]] \<and>
         mt_Y_train t1 = Some [(1, Fin 5), (2, Fin 8)] \<and>
         mt_Y_test t1 = Some [(0, Fin 6)] \<and> mt_test_idx t1 = Some [0]"
    and c: "\<And>split' X_test_raw' Y_test' X_test'.
            split' (map (\<lambda>r. (fr_idx r, fr_values r)) example_features)
                   (map (\<lambda>r. (fr_idx r, human_wc r)) example_features) (1 / 5) (SEED example_train_env)
              = Inr ([(1, [Fin 4, Fin 20]), (2, [Fin 9, Fin 60])], X_test_raw',
                     [(1, Fin 5), (2, Fin 8)], Y_test') \<Longrightarrow>
            scaler_transform example_train_env (Some [(1, [Fin 4, Fin 20]), (2, [Fin 9, Fin 60])])
              X_test_raw' = Inr X_test' \<Longrightarrow>
            (\<exists>t1. prepare_train_test_set (example_train_env\<lparr>train_test_split := split'\<rparr>) False
                      (1 / 10) (1 / 5) True (example_trainer\<lparr>mt_features := Some example_features\<rparr>)
                      = Inr (None, t1) \<and>
                   mt_scaler t1 = Some (Some [(1, [Fin 4, Fin 20]), (2, [Fin 9, Fin 60])]) \<and>
                   mt_X_train t1 = Some [[Fin 4, Fin 20], [Fin 9, Fin 60]] \<and>
                   mt_X_test t1 = Some X_test')"
    by simp_all
  have "\<exists>t1. prepare_train_test_set
            (example_train_env\<lparr>train_test_split := (\<lambda>X y test_size seed.
               Inr (drop 1 X, [], drop 1 y, []))\<rparr>)
            False (1 / 10) (1 / 5) True
            (example_trainer\<lparr>mt_features := Some example_features\<rparr>) = Inr (None, t1) \<and>
         mt_scaler t1 = Some (Some [(1, [Fin 4, Fin 20]), (2, [Fin 9, Fin 60])]) \<and>
         mt_X_train t1 = Some [[Fin 4, Fin 20], [Fin 9, Fin 60]] \<and>
         mt_X_test t1 = Some []"
    by (rule c[where X_test_raw' = "[]" and Y_test' = "[]"])
       (simp_all add: example_train_env_def example_features_def)
  with ab show ?thesis by blast
qed

subsection \<open>Training before preparing\<close>

text \<open>
  C5 (as the code has it). On a trainer that holds a model whose \<open>set_params\<close> accepts the
  parameters, \<open>train\<close> before \<open>prepare_train_test_set\<close> logs the not-prepared error and
  returns; the regressor's \<open>fit\<close> is not called, the model is the one \<open>set_params\<close> left.
  If \<open>prepare_train_test_set\<close> then returns, both train partitions are there and a second
  \<open>train\<close> fits the model on them.
\<close>

theorem train_before_prepare:
  assumes "mt_X_train t = None"
    and "mt_model t = Some m"
    and "set_params env m params = Inr m1"
  shows "train env params t =
           Inr (t\<lparr>mt_model := Some m1, mt_out := mt_out t @ [LogError not_prepared_msg]\<rparr>) \<and>
         (\<forall>remove_outliers outliers_tol test_set_size r t2 mtype m2.
            prepare_train_test_set env remove_outliers outliers_tol test_set_size True
              (t\<lparr>mt_model := Some m1, mt_out := mt_out t @ [LogError not_prepared_msg]\<rparr>)
              = Inr (r, t2) \<and>
            mt_model_type t = Some mtype \<and> set_params env m1 params = Inr m2 \<longrightarrow>
            (\<exists>X Y. mt_X_train t2 = Some X \<and> mt_Y_train t2 = Some Y \<and>
               (\<forall>m3. fit env m2 X Y = Inr m3 \<longrightarrow>
                  train env params t2 =
                    Inr (t2\<lparr>mt_model := Some m3,
                            mt_out := mt_out t2 @ [LogInfo (''Training '' @ mtype), ModelFit]\<rparr>))))"
proof -
  let ?t1 = "t\<lparr>mt_model := Some m1, mt_out := mt_out t @ [LogError not_prepared_msg]\<rparr>"
  have first: "train env params t = Inr ?t1"
    using assms by (simp add: train_def)
  have second: "\<exists>X Y. mt_X_train t2 = Some X \<and> mt_Y_train t2 = Some Y \<and>
               (\<forall>m3. fit env m2 X Y = Inr m3 \<longrightarrow>
                  train env params t2 =
                    Inr (t2\<lparr>mt_model := Some m3,
                            mt_out := mt_out t2 @ [LogInfo (''Training '' @ mtype), ModelFit]\<rparr>))"
    if p: "prepare_train_test_set env remove_outliers outliers_tol test_set_size True ?t1
             = Inr (r, t2)"
      and ty: "mt_model_type t = Some mtype" and sp: "set_params env m1 params = Inr m2"
    for remove_outliers outliers_tol test_set_size r t2 mtype m2
  proof -
    from prepare_train_test_set_inplace[OF p]
    obtain X Y where xy: "mt_X_train t2 = Some X" "mt_Y_train t2 = Some Y"
      and m: "mt_model t2 = Some m1" and mt: "mt_model_type t2 = Some mtype"
      using ty by auto
    have "train env params t2 =
            Inr (t2\<lparr>mt_model := Some m3,
                    mt_out := mt_out t2 @ [LogInfo (''Training '' @ mtype), ModelFit]\<rparr>)"
      if "fit env m2 X Y = Inr m3" for m3
      using that xy m mt sp by (simp add: train_def)
    with xy show ?thesis by blast
  qed
  from first second show ?thesis by blast
qed

text \<open>
  The theorem on a trainer of type \<open>XGB\<close> with three feature rows: the first \<open>train\<close>
  reports, the preparation returns, and the second \<open>train\<close> fits.
\<close>

theorem train_before_prepare_witness:
  "mt_X_train (example_trainer\<lparr>mt_features := Some example_features\<rparr>) = None \<and>
   train example_train_env [] (example_trainer\<lparr>mt_features := Some example_features\<rparr>) =
     Inr (example_trainer\<lparr>mt_features := Some example_features,
            mt_out := [LogError not_prepared_msg]\<rparr>) \<and>
   (\<exists>t2 X Y.
      prepare_train_test_set example_train_env False (1 / 10) (1 / 5) True
        (example_trainer\<lparr>mt_features := Some example_features,
            mt_out := [LogError not_prepared_msg]\<rparr>) = Inr (None, t2) \<and>
      mt_X_train t2 = Some X \<and> mt_Y_train t2 = Some Y \<and>
      train example_train_env [] t2 =
        Inr (t2\<lparr>mt_model := Some ((XGBRegressor example_train_env 42)\<lparr>er_fitted_on := Some (X, Y)\<rparr>),
                mt_out := mt_out t2 @ [LogInfo ''Training XGB'', ModelFit]\<rparr>))"
proof -
  let ?t = "example_trainer\<lparr>mt_features := Some example_features\<rparr>"
  let ?m = "XGBRegressor example_train_env 42"
  let ?t1 = "example_trainer\<lparr>mt_features := Some example_features,
            mt_out := [LogError not_prepared_msg]\<rparr>"
  have x: "mt_X_train ?t = None" and m: "mt_model ?t = Some ?m"
    and ty: "mt_model_type ?t = Some ''XGB''"
    by (simp_all add: example_trainer_def new_trainer_def)
  have sp: "set_params example_train_env ?m [] = Inr ?m"
    by (simp add: example_train_env_def)
  have eq: "?t\<lparr>mt_model := Some ?m, mt_out := mt_out ?t @ [LogError not_prepared_msg]\<rparr> = ?t1"
    by (simp add: example_trainer_def new_trainer_def)
  note th = train_before_prepare[OF x m sp, unfolded eq]
  from th have first: "train example_train_env [] ?t = Inr ?t1"
    by blast
  obtain t2 where p: "prepare_train_test_set example_train_env False (1 / 10) (1 / 5) True ?t1
      = Inr (None, t2)"
    using prepare_train_test_set_result(1)[of ?t1 example_features False example_train_env
        "1 / 10" example_features "1 / 5" "drop 1 (map (\<lambda>r. (fr_idx r, fr_values r)) example_features)"
        "take 1 (map (\<lambda>r. (fr_idx r, fr_values r)) example_features)"
        "drop 1 (map (\<lambda>r. (fr_idx r, human_wc r)) example_features)"
        "take 1 (map (\<lambda>r. (fr_idx r, human_wc r)) example_features)"]
    by (auto simp: example_train_env_def)
  from th p ty sp obtain X Y where xy: "mt_X_train t2 = Some X" "mt_Y_train t2 = Some Y"
    and fitted: "\<forall>m3. fit example_train_env ?m X Y = Inr m3 \<longrightarrow>
        train example_train_env [] t2 =
          Inr (t2\<lparr>mt_model := Some m3,
                  mt_out := mt_out t2 @ [LogInfo (''Training '' @ ''XGB''), ModelFit]\<rparr>)"
    by blast
  have "fit example_train_env ?m X Y = Inr (?m\<lparr>er_fitted_on := Some (X, Y)\<rparr>)"
    by (simp add: example_train_env_def)
  with fitted have "train example_train_env [] t2 =
          Inr (t2\<lparr>mt_model := Some (?m\<lparr>er_fitted_on := Some (X, Y)\<rparr>),
                  mt_out := mt_out t2 @ [LogInfo ''Training XGB'', ModelFit]\<rparr>)"
    by simp
  with x first p xy show ?thesis by blast
qed

text \<open>
  C5 as stated fails: a trainer constructed with the unknown name \<open>SVM\<close> has no model, and
  \<open>train\<close> before \<open>prepare_train_test_set\<close> raises AttributeError on \<open>self.model\<close>, outside
  the \<open>try\<close>, instead of reporting that the sets are not prepared.
\<close>

theorem train_before_prepare_counterexample:
  "ModelTrainer_init example_train_env [True] ''SVM'' =
     Inr (new_trainer\<lparr>mt_data := Some [True], mt_out :=
       [LogError ''Sorry, training for mode_type SVM has not been implemented yet.'']\<rparr>) \<and>
   mt_X_train (new_trainer\<lparr>mt_data := Some [True], mt_out :=
       [LogError ''Sorry, training for mode_type SVM has not been implemented yet.'']\<rparr>
       :: (bool list, xframe option, example_regressor) ModelTrainer) = None \<and>
   train example_train_env []
     (new_trainer\<lparr>mt_data := Some [True], mt_out :=
       [LogError ''Sorry, training for mode_type SVM has not been implemented yet.'']\<rparr>)
     = Inl (AttributeError ''model'')"
  by (simp add: set_new_model_def ModelTrainer_init_def new_trainer_def train_def)

subsection \<open>The grid search and its prompt\<close>

lemma length_itertools_product:
  "length (itertools_product xss) = prod_list (map length xss)"
  by (induction xss) (simp_all add: length_concat comp_def sum_list_triv)

lemma grid_search_report_count:
  "grid_search_report class_name scoring_metric cv_params =
     [Print class_name, Banner '' Metric for evaluation: '', Print scoring_metric,
      Banner '' Params to be tested: '']
     @ map (\<lambda>(key, value). PrintParam key value) cv_params
     @ [PrintCombinations (prod_list (map (\<lambda>(key, value). length value) cv_params)),
        Input grid_search_prompt]"
  by (simp add: grid_search_report_def length_itertools_product comp_def split_def)

text \<open>
  C8 (as the code has it). For a trainer of type \<open>RF\<close>, \<open>XGB\<close> or \<open>KNN\<close>, \<open>grid_search\<close>
  prints the number of combinations, which is the product of the lengths of the value
  lists, and then asks. On the answer \<open>n\<close> or \<open>no\<close> it prints a line and returns: no
  search is fitted and the model is as it was. On every other answer, with the train
  partitions there and the search returning, the search is fitted (after the count and the
  prompt) and the model becomes its best estimator.
\<close>

theorem grid_search_answer:
  assumes "mt_model_type t = Some mtype"
    and "(mtype, estimator, class_name) \<in>
           {(''RF'', RandomForestRegressor env (SEED env), ''RandomForestRegressor''),
            (''XGB'', XGBRegressor env (SEED env), ''XGBRegressor''),
            (''KNN'', KNeighborsRegressor env, ''KNeighborsRegressor'')}"
    and "report =
           [Banner '' Estimator: '', Print class_name, Banner '' Metric for evaluation: '',
            Print scoring_metric, Banner '' Params to be tested: '']
           @ map (\<lambda>(key, value). PrintParam key value) cv_params
           @ [PrintCombinations (prod_list (map (\<lambda>(key, value). length value) cv_params)),
              Input grid_search_prompt]"
  shows "(answer = ''n'' \<or> answer = ''no'' \<longrightarrow>
            grid_search env cv_params cv_folds verbose scoring_metric answer t =
              Inr (None, t\<lparr>mt_out := mt_out t @ report @ [Print ''Please redefine inputs.'']\<rparr>)) \<and>
         (\<forall>X Y gs. answer \<noteq> ''n'' \<and> answer \<noteq> ''no'' \<and>
            mt_X_train t = Some X \<and> mt_Y_train t = Some Y \<and>
            GridSearchCV_fit env estimator cv_params scoring_metric cv_folds (- 1) verbose X Y = Inr gs
            \<longrightarrow>
            grid_search env cv_params cv_folds verbose scoring_metric answer t =
              Inr (Some gs, t\<lparr>mt_model := Some (best_estimator env gs),
                              mt_out := mt_out t @ report @ [GridSearchFit]\<rparr>))"
proof -
  from assms(2) consider
      (rf) "mtype = ''RF''" "estimator = RandomForestRegressor env (SEED env)"
           "class_name = ''RandomForestRegressor''"
    | (xgb) "mtype = ''XGB''" "estimator = XGBRegressor env (SEED env)"
           "class_name = ''XGBRegressor''"
    | (knn) "mtype = ''KNN''" "estimator = KNeighborsRegressor env"
           "class_name = ''KNeighborsRegressor''"
    by auto
  then show ?thesis
  proof cases
    case rf
    with assms(1,3) show ?thesis
      by (simp add: grid_search_def grid_search_report_count Let_def)
  next
    case xgb
    with assms(1,3) show ?thesis
      by (simp add: grid_search_def grid_search_report_count Let_def)
  next
    case knn
    with assms(1,3) show ?thesis
      by (simp add: grid_search_def grid_search_report_count Let_def)
  qed
qed

lemma example_report_eq:
  "[Banner '' Estimator: '', Print ''XGBRegressor'', Banner '' Metric for evaluation: '',
            Print ''r2'', Banner '' Params to be tested: '']
           @ map (\<lambda>(key, value). PrintParam key value) example_grid
           @ [PrintCombinations (prod_list (map (\<lambda>(key, value). length value) example_grid)),
              Input grid_search_prompt] = example_report"
  by (simp add: example_grid_def example_report_def)

text \<open>The theorem on a grid of 3 by 2 values, at the answers \<open>no\<close> and \<open>y\<close>.\<close>

theorem grid_search_answer_witness:
  "grid_search example_train_env example_grid 5 2 ''r2'' ''no'' example_prepared_trainer =
     Inr (None, example_prepared_trainer\<lparr>mt_out := example_report @ [Print ''Please redefine inputs.'']\<rparr>) \<and>
   grid_search example_train_env example_grid 5 2 ''r2'' ''y'' example_prepared_trainer =
     Inr (Some ((XGBRegressor example_train_env 42)
                  \<lparr>er_params := [(''cv'', PyInt 5)],
                   er_fitted_on := Some ([[Fin 4, Fin 20], [Fin 9, Fin 60]], [(1, Fin 5), (2, Fin 8)])\<rparr>),
          example_prepared_trainer
            \<lparr>mt_model := Some ((XGBRegressor example_train_env 42)
                  \<lparr>er_params := [(''cv'', PyInt 5)],
                   er_fitted_on := Some ([[Fin 4, Fin 20], [Fin 9, Fin 60]], [(1, Fin 5), (2, Fin 8)])\<rparr>),
             mt_out := example_report @ [GridSearchFit]\<rparr>)"
proof -
  have ty: "mt_model_type example_prepared_trainer = Some ''XGB''"
    by (simp add: example_prepared_trainer_def example_trainer_def new_trainer_def)
  have sel: "(''XGB'', XGBRegressor example_train_env (SEED example_train_env), ''XGBRegressor'') \<in>
           {(''RF'', RandomForestRegressor example_train_env (SEED example_train_env), ''RandomForestRegressor''),
            (''XGB'', XGBRegressor example_train_env (SEED example_train_env), ''XGBRegressor''),
            (''KNN'', KNeighborsRegressor example_train_env, ''KNeighborsRegressor'')}"
    by simp
  note g = grid_search_answer[OF ty sel example_report_eq[symmetric], of _ 5 2]
  have out: "mt_out example_prepared_trainer = []"
    by (simp add: example_prepared_trainer_def example_trainer_def new_trainer_def)
  have no: "grid_search example_train_env example_grid 5 2 ''r2'' ''no'' example_prepared_trainer =
     Inr (None, example_prepared_trainer\<lparr>mt_out := example_report @ [Print ''Please redefine inputs.'']\<rparr>)"
    using g[of "''no''"] out by simp
  have yes: "grid_search example_train_env example_grid 5 2 ''r2'' ''y'' example_prepared_trainer =
     Inr (Some ((XGBRegressor example_train_env 42)
                  \<lparr>er_params := [(''cv'', PyInt 5)],
                   er_fitted_on := Some ([[Fin 4, Fin 20], [Fin 9, Fin 60]], [(1, Fin 5), (2, Fin 8)])\<rparr>),
          example_prepared_trainer
            \<lparr>mt_model := Some ((XGBRegressor example_train_env 42)
                  \<lparr>er_params := [(''cv'', PyInt 5)],
                   er_fitted_on := Some ([[Fin 4, Fin 20], [Fin 9, Fin 60]], [(1, Fin 5), (2, Fin 8)])\<rparr>),
             mt_out := example_report @ [GridSearchFit]\<rparr>)"
    using g[of "''y''"] out
    by (simp add: example_prepared_trainer_def example_trainer_def new_trainer_def
        example_train_env_def)
  from no yes show ?thesis by simp
qed

text \<open>
  C8 as stated fails: on the empty answer, which confirms nothing, and on the answer
  \<open>No\<close>, the search is fitted and the model replaced.
\<close>

theorem grid_search_answer_counterexample:
  "grid_search example_train_env example_grid 5 2 ''r2'' '''' example_prepared_trainer =
     Inr (Some ((XGBRegressor example_train_env 42)
                  \<lparr>er_params := [(''cv'', PyInt 5)],
                   er_fitted_on := Some ([[Fin 4, Fin 20], [Fin 9, Fin 60]], [(1, Fin 5), (2, Fin 8)])\<rparr>),
          example_prepared_trainer
            \<lparr>mt_model := Some ((XGBRegressor example_train_env 42)
                  \<lparr>er_params := [(''cv'', PyInt 5)],
                   er_fitted_on := Some ([[Fin 4, Fin 20], [Fin 9, Fin 60]], [(1, Fin 5), (2, Fin 8)])\<rparr>),
             mt_out := example_report @ [GridSearchFit]\<rparr>) \<and>
   grid_search example_train_env example_grid 5 2 ''r2'' ''No'' example_prepared_trainer =
     grid_search example_train_env example_grid 5 2 ''r2'' '''' example_prepared_trainer \<and>
   mt_model example_prepared_trainer = Some (XGBRegressor example_train_env 42)"
  by (simp add: grid_search_def grid_search_report_def example_prepared_trainer_def
      example_trainer_def new_trainer_def example_train_env_def example_grid_def
      example_report_def Let_def)

section \<open>Properties of BaseModel and Grader\<close>

subsection \<open>Loading a model\<close>



subsection \<open>Baseline mode\<close>

lemma column_length:
  assumes "wf_frame df" and "map_of (df_columns df) c = Some col"
  shows "length col = length (df_index df)"
proof -
  from assms(2) have "(c, col) \<in> set (df_columns df)"
    by (rule map_of_SomeD)
  with assms(1) show ?thesis
    by (auto simp: wf_frame_def list_all_iff)
qed

text \<open>
  C7. In baseline mode, when the preprocessor returns a frame that has the baseline
  column, \<open>grade\<close> returns that column, whatever the model attribute holds and whatever the
  Pipeline's \<open>predict\<close> would do. In a well-formed frame the column has one entry per row,
  as has the result of full-model mode whenever the Pipeline predicts one value per row.
\<close>

theorem baseline_mode_bypasses_model:
  assumes "bm_baseline_mode self"
    and "preprocess_data env X = Inr X_processed"
    and "map_of (df_columns X_processed) (BASELINE_MODEL_PREDICTION_COL env) = Some col"
  shows "grade env self X = Inr col \<and>
         (\<forall>predict' model'.
            grade (env\<lparr>pipeline_predict := predict'\<rparr>) (self\<lparr>bm_model := model'\<rparr>) X = Inr col) \<and>
         (wf_frame X_processed \<longrightarrow>
            length col = length (df_index X_processed) \<and>
            (\<forall>m ys. pipeline_predict env m X_processed = Inr ys \<and>
                    length ys = length (df_index X_processed) \<longrightarrow>
               grade env (self\<lparr>bm_baseline_mode := False, bm_model := Some m\<rparr>) X = Inr ys \<and>
               length ys = length col))"
  using assms
  by (auto simp: grade_def BaseModel_predict_def getitem_def column_length)

text \<open>
  The theorem on a frame of two rows: the baseline column, the same with a \<open>predict\<close> that
  would raise, and full-model mode.
\<close>

theorem baseline_mode_bypasses_model_witness:
  "grade example_lit_env \<lparr>bm_baseline_mode = True, bm_model = None\<rparr> example_frame
     = Inr [PyInt 6, PyInt 6] \<and>
   grade (example_lit_env\<lparr>pipeline_predict := (\<lambda>m X. Inl (External ''never called''))\<rparr>)
     \<lparr>bm_baseline_mode = True, bm_model = Some 7\<rparr> example_frame = Inr [PyInt 6, PyInt 6] \<and>
   grade example_lit_env \<lparr>bm_baseline_mode = False, bm_model = Some 7\<rparr> example_frame
     = Inr [PyFloat (Fin 7), PyFloat (Fin 7)]"
proof -
  let ?Xp = "example_frame\<lparr>df_columns := df_columns example_frame @
                             [(''correct_words'', [PyInt 6, PyInt 6])]\<rparr>"
  have b: "bm_baseline_mode \<lparr>bm_baseline_mode = True, bm_model = (None :: nat option)\<rparr>"
    by simp
  have p: "preprocess_data example_lit_env example_frame = Inr ?Xp"
    by (simp add: example_lit_env_def example_frame_def)
  have c: "map_of (df_columns ?Xp) (BASELINE_MODEL_PREDICTION_COL example_lit_env)
             = Some [PyInt 6, PyInt 6]"
    by (simp add: example_lit_env_def example_frame_def)
  have wf: "wf_frame ?Xp"
    by (simp add: wf_frame_def example_frame_def)
  note th = baseline_mode_bypasses_model[OF b p c]
  from th have 1: "grade example_lit_env \<lparr>bm_baseline_mode = True, bm_model = None\<rparr> example_frame
     = Inr [PyInt 6, PyInt 6]"
    by blast
  from th have "\<forall>predict' model'.
            grade (example_lit_env\<lparr>pipeline_predict := predict'\<rparr>)
              (\<lparr>bm_baseline_mode = True, bm_model = None\<rparr>\<lparr>bm_model := model'\<rparr>) example_frame
              = Inr [PyInt 6, PyInt 6]"
    by blast
  then have 2: "grade (example_lit_env\<lparr>pipeline_predict := (\<lambda>m X. Inl (External ''never called''))\<rparr>)
     (\<lparr>bm_baseline_mode = True, bm_model = None\<rparr>\<lparr>bm_model := Some 7\<rparr>) example_frame
       = Inr [PyInt 6, PyInt 6]"
    by blast
  from th wf have "\<forall>m ys. pipeline_predict example_lit_env m ?Xp = Inr ys \<and>
                    length ys = length (df_index ?Xp) \<longrightarrow>
               grade example_lit_env
                 (\<lparr>bm_baseline_mode = True, bm_model = None\<rparr>\<lparr>bm_baseline_mode := False, bm_model := Some m\<rparr>)
                 example_frame = Inr ys"
    by blast
  then have 3: "grade example_lit_env
                 (\<lparr>bm_baseline_mode = True, bm_model = None\<rparr>\<lparr>bm_baseline_mode := False, bm_model := Some 7\<rparr>)
                 example_frame = Inr [PyFloat (Fin 7), PyFloat (Fin 7)]"
    by (simp add: example_lit_env_def example_frame_def)
  from 1 2 3 show ?thesis by simp
qed

subsection \<open>The constructors\<close>

text \<open>
  C9. A \<open>baseline_mode\<close> that is not a \<open>bool\<close> makes \<open>BaseModel.__init__\<close>, and with it
  \<open>Grader.__init__\<close>, raise TypeError. With \<open>baseline_mode=True\<close> the Grader is
  constructed whatever the path (also \<open>None\<close>) and whatever the file system holds, and its
  model is \<open>None\<close>.
\<close>

theorem baseline_mode_checked:
  "((\<forall>b. baseline_mode \<noteq> PyBool b) \<longrightarrow>
      (BaseModel_init baseline_mode :: error + 'p BaseModel)
        = Inl (TypeError ''baseline_mode must be a boolean'') \<and>
      Grader_init (env :: 'p lit_env) model_filepath baseline_mode
        = Inl (TypeError ''baseline_mode must be a boolean'')) \<and>
   Grader_init env model_filepath (PyBool True) = Inr \<lparr>bm_baseline_mode = True, bm_model = None\<rparr>"
  by (cases baseline_mode) (simp_all add: BaseModel_init_def Grader_init_def)

text \<open>The theorem at the integer 1, and at \<open>True\<close> with no path and with a missing file.\<close>

theorem baseline_mode_checked_witness:
  "Grader_init example_lit_env (Some ''model.pkl'') (PyInt 1)
     = Inl (TypeError ''baseline_mode must be a boolean'') \<and>
   Grader_init example_lit_env None (PyBool True) = Inr \<lparr>bm_baseline_mode = True, bm_model = None\<rparr> \<and>
   Grader_init example_lit_env (Some ''missing.pkl'') (PyBool True)
     = Inr \<lparr>bm_baseline_mode = True, bm_model = None\<rparr>"
  using baseline_mode_checked[of "PyInt 1" example_lit_env "Some ''model.pkl''"]
    baseline_mode_checked[of "PyInt 1" example_lit_env None]
    baseline_mode_checked[of "PyInt 1" example_lit_env "Some ''missing.pkl''"]
  by simp

end
